theory Spec2Isabelle
  imports Main "HOL-Library.Sublist" "HOL-Library.Word"
begin

section \<open>Python values used by the document tools\<close>

text \<open>
  A Python \<open>str\<close> is modelled as the list of its code points; the model's \<open>char\<close> has
  256 values, so the strings of the model are the Python strings over code points below
  256, and \<open>length\<close> is Python's \<open>len\<close> on them. A Python \<open>int\<close> is an \<open>int\<close>; a parameter
  whose default is \<open>None\<close> is an \<open>option\<close>. A tool either returns its text (\<open>Inr\<close>) or an
  exception leaves it (\<open>Inl\<close>).
\<close>

datatype exn = HttpError string | IndexError


fun str_nat :: "nat \<Rightarrow> string" where
  "str_nat n = (if n < 10 then [char_of (48 + n)] else str_nat (n div 10) @ [char_of (48 + n mod 10)])"

definition str_int :: "int \<Rightarrow> string" where
  "str_int i = (if i < 0 then CHR ''-'' # str_nat (nat (- i)) else str_nat (nat i))"

definition str_bool :: "bool \<Rightarrow> string" where
  "str_bool b = (if b then ''True'' else ''False'')"

fun join :: "string \<Rightarrow> string list \<Rightarrow> string" where
  "join sep [] = []"
| "join sep [x] = x"
| "join sep (x # y # ys) = x @ sep @ join sep (y # ys)"

fun is_not_None :: "'a option \<Rightarrow> bool" where
  "is_not_None None = False"
| "is_not_None (Some v) = True"

text \<open>Truthiness of an optional \<open>int\<close> and of an optional \<open>str\<close> (\<open>None\<close>, \<open>0\<close> and \<open>""\<close> are falsy).\<close>

fun truthy_int :: "int option \<Rightarrow> bool" where
  "truthy_int None = False"
| "truthy_int (Some i) = (i \<noteq> 0)"

fun truthy_str :: "string option \<Rightarrow> bool" where
  "truthy_str None = False"
| "truthy_str (Some s) = (s \<noteq> [])"

fun str_or_empty :: "string option \<Rightarrow> string" where
  "str_or_empty None = []"
| "str_or_empty (Some s) = s"

section \<open>Structural edit requests\<close>

text \<open>
  Modelled from the spec: the request builders \<open>create_*_request\<close> of \<open>gdocs.docs_helpers\<close>
  are imported by \<open>gdocs/docs_tools.py\<close> and are not among the sources. Section 4.6 of the
  specification makes each of them a pure mapping from its parameters to one operation
  descriptor, and section 3 lists the descriptors (\<open>EditOperation\<close>); a builder is modelled
  as the constructor of its descriptor, holding the arguments as it was given them.
\<close>

datatype request =
    InsertText int string
  | DeleteRange int int
  | FormatText int "int option" "bool option" "bool option" "bool option" "int option" "string option"
  | InsertTable int int int
  | InsertPageBreak int
  | InsertImage int string "int option" "int option"
  | InsertBulletList int int string

definition create_insert_text_request :: "int \<Rightarrow> string \<Rightarrow> request" where
  "create_insert_text_request index text = InsertText index text"

definition create_delete_range_request :: "int \<Rightarrow> int \<Rightarrow> request" where
  "create_delete_range_request start_index end_index = DeleteRange start_index end_index"

definition create_format_text_request ::
  "int \<Rightarrow> int option \<Rightarrow> bool option \<Rightarrow> bool option \<Rightarrow> bool option \<Rightarrow> int option \<Rightarrow> string option \<Rightarrow> request" where
  "create_format_text_request start_index end_index bold italic underline font_size font_family =
     FormatText start_index end_index bold italic underline font_size font_family"







section \<open>The document tree\<close>

text \<open>
  The tree \<open>documents().get\<close> returns, as far as the tools read it. A structural element
  is a dictionary: one with the key \<open>paragraph\<close> is a \<open>Paragraph\<close> (that key is tested
  first), one with the key \<open>table\<close> a \<open>Table\<close>, any other an \<open>OtherElement\<close>. A key the
  code reads with \<open>.get(key, default)\<close> and an empty default is the empty list when it is
  missing. A paragraph element holds the \<open>content\<close> of its \<open>textRun\<close> when it has one; a
  table is its rows, a row its cells, a cell its content.
\<close>

datatype paragraph_element = ParagraphElement "string option"

datatype element =
    Paragraph "paragraph_element list"
  | Table "element list list list"
  | OtherElement

datatype document_tab = DocumentTab (tab_title: "string option") (tab_body: "element list")

datatype tab = Tab (documentTab: "document_tab option") (childTabs: "tab list")

record doc_data =
  doc_body :: "element list"
  doc_tabs :: "tab list"

section \<open>Collaborators of the tools\<close>

text \<open>A value of an operation dictionary of \<open>batch_update_doc\<close>.\<close>

datatype pyval = PStr string | PInt int | PBool bool | PNone

type_synonym operation = "(string \<times> pyval) list"

text \<open>
  The network calls a tool issues, in the order it issues them; a call of a manager of
  \<open>gdocs.managers\<close> is recorded as one entry, the manager being where its network calls are
  made.
\<close>

datatype call =
    BatchUpdate string "request list"
  | DocumentsGet string
  | FilesGet string
  | FilesGetMedia string
  | CreateAndPopulateTable string "string list list" int bool
  | UpdateHeaderFooterContent string string string string
  | ExecuteBatchOperations string "operation list"

text \<open>
  The remote document service, \<open>service.documents()\<close>: each request is answered from the
  state \<open>'w\<close> of the remote side, which it may change, with a reply or an exception. The
  body of a \<open>batchUpdate\<close> reply is not read by the tools modelled here.
\<close>

record 'w docs_service =
  documents_batchUpdate :: "string \<Rightarrow> request list \<Rightarrow> 'w \<Rightarrow> (exn + unit) \<times> 'w"
  documents_get :: "string \<Rightarrow> 'w \<Rightarrow> (exn + doc_data) \<times> 'w"

text \<open>The Drive service, \<open>drive_service.files()\<close>, and the metadata it returns for a file.\<close>

record file_metadata =
  meta_name :: "string option"
  meta_mimeType :: "string option"
  meta_webViewLink :: "string option"

record 'w drive_service =
  files_get :: "string \<Rightarrow> 'w \<Rightarrow> (exn + file_metadata) \<times> 'w"
  files_get_media :: "string \<Rightarrow> 'w \<Rightarrow> (exn + 8 word list) \<times> 'w"

text \<open>
  The managers of \<open>gdocs.managers\<close> are not among the sources: a tool is given the method
  it calls, which answers from the remote state with what the method returns (a tuple
  starting with \<open>success\<close> and \<open>message\<close>) or with an exception. \<open>metadata\<close> is a dictionary
  read with \<open>.get(key, 0)\<close>.
\<close>

type_synonym metadata = "string \<rightharpoonup> int"

record 'w managers =
  create_and_populate_table ::
    "string \<Rightarrow> string list list \<Rightarrow> int \<Rightarrow> bool \<Rightarrow> 'w \<Rightarrow> (exn + bool \<times> string \<times> metadata) \<times> 'w"
  update_header_footer_content ::
    "string \<Rightarrow> string \<Rightarrow> string \<Rightarrow> string \<Rightarrow> 'w \<Rightarrow> (exn + bool \<times> string) \<times> 'w"
  execute_batch_operations ::
    "string \<Rightarrow> operation list \<Rightarrow> 'w \<Rightarrow> (exn + bool \<times> string \<times> metadata) \<times> 'w"

definition metadata_get :: "metadata \<Rightarrow> string \<Rightarrow> int" where
  "metadata_get metadata key = (case metadata key of None \<Rightarrow> 0 | Some v \<Rightarrow> v)"

text \<open>
  \<open>ValidationManager\<close> of \<open>gdocs.managers\<close> is not among the sources: its checks are
  parameters of the tools, each returning \<open>(is_valid, error_msg)\<close>.
\<close>

record ValidationManager =
  validate_document_id :: "string \<Rightarrow> bool \<times> string"
  validate_text_formatting_params ::
    "bool option \<Rightarrow> bool option \<Rightarrow> bool option \<Rightarrow> int option \<Rightarrow> string option \<Rightarrow> bool \<times> string"
  validate_index_range :: "int \<Rightarrow> int \<Rightarrow> bool \<times> string"
  validate_header_footer_params :: "string \<Rightarrow> string \<Rightarrow> bool \<times> string"
  validate_text_content :: "string \<Rightarrow> bool \<times> string"
  validate_batch_operations :: "operation list \<Rightarrow> bool \<times> string"
  validate_table_data :: "string list list \<Rightarrow> bool \<times> string"
  validate_index :: "int \<Rightarrow> string \<Rightarrow> bool \<times> string"

type_synonym 'w outcome = "(exn + string) \<times> call list \<times> 'w"

definition doc_link :: "string \<Rightarrow> string" where
  "doc_link document_id = ''https://docs.google.com/document/d/'' @ document_id @ ''/edit''"


section \<open>modify_doc_text\<close>

definition any_formatting ::
  "bool option \<Rightarrow> bool option \<Rightarrow> bool option \<Rightarrow> int option \<Rightarrow> string option \<Rightarrow> bool" where
  "any_formatting bold italic underline font_size font_family =
     (is_not_None bold \<or> is_not_None italic \<or> is_not_None underline \<or>
      truthy_int font_size \<or> truthy_str font_family)"

text \<open>The text branch (lines 360-381): the requests and the line of the summary.\<close>

definition is_replacement :: "int \<Rightarrow> int option \<Rightarrow> bool" where
  "is_replacement start_index end_index =
     (case end_index of None \<Rightarrow> False | Some e \<Rightarrow> e > start_index)"

definition modify_text_requests :: "int \<Rightarrow> int option \<Rightarrow> string option \<Rightarrow> request list" where
  "modify_text_requests start_index end_index text =
     (case text of
        None \<Rightarrow> []
      | Some t \<Rightarrow>
          (case end_index of
             Some e \<Rightarrow>
               if e > start_index then
                 (if start_index = 0 then
                    [create_insert_text_request 1 t,
                     create_delete_range_request (1 + int (length t)) (e + int (length t))]
                  else
                    [create_delete_range_request start_index e,
                     create_insert_text_request start_index t])
               else [create_insert_text_request (if start_index = 0 then 1 else start_index) t]
           | None \<Rightarrow> [create_insert_text_request (if start_index = 0 then 1 else start_index) t]))"

definition str_opt_int :: "int option \<Rightarrow> string" where
  "str_opt_int v = (case v of None \<Rightarrow> ''None'' | Some i \<Rightarrow> str_int i)"

definition modify_text_operations :: "int \<Rightarrow> int option \<Rightarrow> string option \<Rightarrow> string list" where
  "modify_text_operations start_index end_index text =
     (case text of
        None \<Rightarrow> []
      | Some t \<Rightarrow>
          if is_replacement start_index end_index
          then [''Replaced text from index '' @ str_int start_index @ '' to '' @ str_opt_int end_index]
          else [''Inserted text at index '' @ str_int start_index])"

text \<open>The formatting branch (lines 384-405): the range that is formatted.\<close>

definition format_range :: "int \<Rightarrow> int option \<Rightarrow> string option \<Rightarrow> int \<times> int option" where
  "format_range start_index end_index text =
     (let (format_start, format_end) =
            (case text of
               None \<Rightarrow> (start_index, end_index)
             | Some t \<Rightarrow>
                 if is_replacement start_index end_index
                 then (start_index, Some (start_index + int (length t)))
                 else (let actual_index = (if start_index = 0 then 1 else start_index)
                       in (actual_index, Some (actual_index + int (length t)))));
          format_start = (if format_start = 0 then 1 else format_start);
          format_end = (case format_end of
                          None \<Rightarrow> None
                        | Some fe \<Rightarrow> if fe \<le> format_start then Some (format_start + 1) else Some fe)
      in (format_start, format_end))"

definition format_details ::
  "bool option \<Rightarrow> bool option \<Rightarrow> bool option \<Rightarrow> int option \<Rightarrow> string option \<Rightarrow> string list" where
  "format_details bold italic underline font_size font_family =
     (case bold of None \<Rightarrow> [] | Some b \<Rightarrow> [''bold='' @ str_bool b]) @
     (case italic of None \<Rightarrow> [] | Some b \<Rightarrow> [''italic='' @ str_bool b]) @
     (case underline of None \<Rightarrow> [] | Some b \<Rightarrow> [''underline='' @ str_bool b]) @
     (if truthy_int font_size then [''font_size='' @ str_opt_int font_size] else []) @
     (if truthy_str font_family then [''font_family='' @ str_or_empty font_family] else [])"

definition modify_format_requests ::
  "int \<Rightarrow> int option \<Rightarrow> string option \<Rightarrow> bool option \<Rightarrow> bool option \<Rightarrow> bool option \<Rightarrow> int option \<Rightarrow>
   string option \<Rightarrow> request list" where
  "modify_format_requests start_index end_index text bold italic underline font_size font_family =
     (if any_formatting bold italic underline font_size font_family then
        (let (format_start, format_end) = format_range start_index end_index text
         in [create_format_text_request format_start format_end bold italic underline font_size font_family])
      else [])"

definition modify_format_operations ::
  "int \<Rightarrow> int option \<Rightarrow> string option \<Rightarrow> bool option \<Rightarrow> bool option \<Rightarrow> bool option \<Rightarrow> int option \<Rightarrow>
   string option \<Rightarrow> string list" where
  "modify_format_operations start_index end_index text bold italic underline font_size font_family =
     (if any_formatting bold italic underline font_size font_family then
        (let (format_start, format_end) = format_range start_index end_index text
         in [''Applied formatting ('' @
               join '', '' (format_details bold italic underline font_size font_family) @
               '') to range '' @ str_int format_start @ ''-'' @ str_opt_int format_end])
      else [])"

text \<open>
  The input validation (lines 331-354): \<open>Some\<close> of the text returned when a check fails,
  \<open>None\<close> when every check the call reaches passes.
\<close>

definition modify_doc_text_validation ::
  "ValidationManager \<Rightarrow> string \<Rightarrow> int \<Rightarrow> int option \<Rightarrow> string option \<Rightarrow> bool option \<Rightarrow> bool option \<Rightarrow>
   bool option \<Rightarrow> int option \<Rightarrow> string option \<Rightarrow> string option" where
  "modify_doc_text_validation validator document_id start_index end_index text bold italic underline
      font_size font_family =
     (let (is_valid, error_msg) = validate_document_id validator document_id in
      if \<not> is_valid then Some (''Error: '' @ error_msg)
      else if text = None \<and> \<not> any_formatting bold italic underline font_size font_family then
        Some (''Error: Must provide either '' @ [CHR 0x27] @ ''text'' @ [CHR 0x27] @
              '' to insert/replace, or formatting parameters (bold, italic, underline, font_size, font_family).'')
      else if any_formatting bold italic underline font_size font_family then
        (let (is_valid, error_msg) =
               validate_text_formatting_params validator bold italic underline font_size font_family in
         if \<not> is_valid then Some (''Error: '' @ error_msg)
         else
           (case end_index of
              None \<Rightarrow> Some (''Error: '' @ [CHR 0x27] @ ''end_index'' @ [CHR 0x27] @
                            '' is required when applying formatting.'')
            | Some e \<Rightarrow>
                (let (is_valid, error_msg) = validate_index_range validator start_index e in
                 if \<not> is_valid then Some (''Error: '' @ error_msg) else None)))
      else None)"

definition modify_doc_text ::
  "ValidationManager \<Rightarrow> 'w docs_service \<Rightarrow> string \<Rightarrow> int \<Rightarrow> int option \<Rightarrow> string option \<Rightarrow> bool option \<Rightarrow>
   bool option \<Rightarrow> bool option \<Rightarrow> int option \<Rightarrow> string option \<Rightarrow> 'w \<Rightarrow> 'w outcome" where
  "modify_doc_text validator service document_id start_index end_index text bold italic underline
      font_size font_family w =
     (case modify_doc_text_validation validator document_id start_index end_index text bold italic
             underline font_size font_family of
        Some err \<Rightarrow> (Inr err, [], w)
      | None \<Rightarrow>
          (let requests = modify_text_requests start_index end_index text @
                          modify_format_requests start_index end_index text bold italic underline
                            font_size font_family;
               operations = modify_text_operations start_index end_index text @
                            modify_format_operations start_index end_index text bold italic underline
                              font_size font_family;
               (reply, w') = documents_batchUpdate service document_id requests w
           in case reply of
                Inl e \<Rightarrow> (Inl e, [BatchUpdate document_id requests], w')
              | Inr r \<Rightarrow>
                  (let operation_summary = join ''; '' operations;
                       text_info = (if truthy_str text
                                    then '' Text length: '' @ str_nat (length (str_or_empty text)) @
                                         '' characters.''
                                    else [])
                   in (Inr (operation_summary @ '' in document '' @ document_id @ ''.'' @ text_info @
                            '' Link: '' @ doc_link document_id),
                       [BatchUpdate document_id requests], w'))))"

section \<open>insert_doc_elements\<close>



definition quoted :: "string \<Rightarrow> string" where
  "quoted s = [CHR 0x27] @ s @ [CHR 0x27]"

text \<open>
  Lines 494-528: the index after the adjustment of line 496, and then either the text
  returned without a request (\<open>Inl\<close>) or the requests and the description (\<open>Inr\<close>).
\<close>

definition bump_index :: "int \<Rightarrow> int" where
  "bump_index index = (if index = 0 then 1 else index)"




section \<open>insert_doc_image\<close>

fun str_or :: "string option \<Rightarrow> string \<Rightarrow> string" where
  "str_or None d = d"
| "str_or (Some s) d = s"





text \<open>The request batches a tool transmitted: the bodies of its \<open>batchUpdate\<close> calls.\<close>

fun transmitted :: "call list \<Rightarrow> request list" where
  "transmitted [] = []"
| "transmitted (BatchUpdate d rs # cs) = rs @ transmitted cs"
| "transmitted (c # cs) = transmitted cs"

definition calls_of :: "'w outcome \<Rightarrow> call list" where
  "calls_of out = fst (snd out)"

definition result_of :: "'w outcome \<Rightarrow> exn + string" where
  "result_of out = fst out"

section \<open>update_doc_headers_footers\<close>

definition update_doc_headers_footers ::
  "ValidationManager \<Rightarrow> 'w managers \<Rightarrow> string \<Rightarrow> string \<Rightarrow> string \<Rightarrow> string \<Rightarrow> 'w \<Rightarrow> 'w outcome" where
  "update_doc_headers_footers validator header_footer_manager document_id section_type content
      header_footer_type w =
     (let (is_valid, error_msg) = validate_document_id validator document_id in
      if \<not> is_valid then (Inr (''Error: '' @ error_msg), [], w)
      else
        (let (is_valid, error_msg) =
               validate_header_footer_params validator section_type header_footer_type in
         if \<not> is_valid then (Inr (''Error: '' @ error_msg), [], w)
         else
           (let (is_valid, error_msg) = validate_text_content validator content in
            if \<not> is_valid then (Inr (''Error: '' @ error_msg), [], w)
            else
              (let (reply, w') =
                     update_header_footer_content header_footer_manager document_id section_type
                       content header_footer_type w;
                   calls = [UpdateHeaderFooterContent document_id section_type content header_footer_type]
               in case reply of
                    Inl e \<Rightarrow> (Inl e, calls, w')
                  | Inr (success, message) \<Rightarrow>
                      if success
                      then (Inr (message @ ''. Link: '' @ doc_link document_id), calls, w')
                      else (Inr (''Error: '' @ message), calls, w')))))"

section \<open>batch_update_doc\<close>

definition batch_update_doc ::
  "ValidationManager \<Rightarrow> 'w managers \<Rightarrow> string \<Rightarrow> operation list \<Rightarrow> 'w \<Rightarrow> 'w outcome" where
  "batch_update_doc validator batch_manager document_id operations w =
     (let (is_valid, error_msg) = validate_document_id validator document_id in
      if \<not> is_valid then (Inr (''Error: '' @ error_msg), [], w)
      else
        (let (is_valid, error_msg) = validate_batch_operations validator operations in
         if \<not> is_valid then (Inr (''Error: '' @ error_msg), [], w)
         else
           (let (reply, w') = execute_batch_operations batch_manager document_id operations w;
                calls = [ExecuteBatchOperations document_id operations]
            in case reply of
                 Inl e \<Rightarrow> (Inl e, calls, w')
               | Inr (success, message, metadata) \<Rightarrow>
                   if success
                   then (Inr (message @ '' on document '' @ document_id @ ''. API replies: '' @
                              str_int (metadata_get metadata ''replies_count'') @ ''. Link: '' @
                              doc_link document_id),
                         calls, w')
                   else (Inr (''Error: '' @ message), calls, w'))))"

section \<open>create_table_with_data\<close>

text \<open>Lines 888-895: the text returned for the outcome of the last attempt.\<close>

definition table_result :: "string \<Rightarrow> int \<Rightarrow> bool \<Rightarrow> string \<Rightarrow> metadata \<Rightarrow> string" where
  "table_result document_id index success message metadata =
     (if success
      then ''SUCCESS: '' @ message @ ''. Table: '' @ str_int (metadata_get metadata ''rows'') @ ''x'' @
           str_int (metadata_get metadata ''columns'') @ '', Index: '' @ str_int index @ ''. Link: '' @
           doc_link document_id
      else ''ERROR: '' @ message)"

definition create_table_with_data ::
  "ValidationManager \<Rightarrow> 'w managers \<Rightarrow> string \<Rightarrow> string list list \<Rightarrow> int \<Rightarrow> bool \<Rightarrow> 'w \<Rightarrow> 'w outcome" where
  "create_table_with_data validator table_manager document_id table_data index bold_headers w =
     (let (is_valid, error_msg) = validate_document_id validator document_id in
      if \<not> is_valid then (Inr (''ERROR: '' @ error_msg), [], w)
      else
        (let (is_valid, error_msg) = validate_table_data validator table_data in
         if \<not> is_valid then (Inr (''ERROR: '' @ error_msg), [], w)
         else
           (let (is_valid, error_msg) = validate_index validator index ''Index'' in
            if \<not> is_valid then (Inr (''ERROR: '' @ error_msg), [], w)
            else
              (let (reply, w1) =
                     create_and_populate_table table_manager document_id table_data index bold_headers w;
                   first = CreateAndPopulateTable document_id table_data index bold_headers
               in case reply of
                    Inl e \<Rightarrow> (Inl e, [first], w1)
                  | Inr (success, message, metadata) \<Rightarrow>
                      if \<not> success \<and> sublist ''must be less than the end index'' message then
                        (let (reply, w2) =
                               create_and_populate_table table_manager document_id table_data (index - 1)
                                 bold_headers w1;
                             retry = CreateAndPopulateTable document_id table_data (index - 1) bold_headers
                         in case reply of
                              Inl e \<Rightarrow> (Inl e, [first, retry], w2)
                            | Inr (success, message, metadata) \<Rightarrow>
                                (Inr (table_result document_id index success message metadata),
                                 [first, retry], w2))
                      else (Inr (table_result document_id index success message metadata), [first], w1)))))"

section \<open>debug_table_structure\<close>

text \<open>
  \<open>find_tables\<close> of \<open>gdocs.docs_structure\<close> is not among the sources: the tool is given it
  as a function from the document to the list of the tables it found. A table and a cell
  are the dictionaries the tool reads, with the keys it reads by subscript always present
  and the keys it reads with \<open>.get\<close> optional.
\<close>

record cell_info =
  cell_start_index :: int
  cell_end_index :: int
  cell_insertion_index :: "int option"
  cell_content :: "string option"
  cell_content_elements :: "nat option"

record table_info =
  tbl_rows :: int
  tbl_columns :: int
  tbl_start_index :: int
  tbl_end_index :: int
  tbl_cells :: "cell_info list list"

text \<open>The value handed to \<open>json.dumps\<close>; \<open>json.dumps\<close> and \<open>repr\<close> are Python's own.\<close>

datatype json = JStr string | JInt int | JList "json list" | JObj "(string \<times> json) list"

definition cell_debug :: "(string \<Rightarrow> string) \<Rightarrow> nat \<Rightarrow> nat \<Rightarrow> cell_info \<Rightarrow> json" where
  "cell_debug repr row_idx col_idx cell =
     JObj [(''position'', JStr (''('' @ str_nat row_idx @ '','' @ str_nat col_idx @ '')'')),
           (''range'', JStr (''['' @ str_int (cell_start_index cell) @ ''-'' @
                             str_int (cell_end_index cell) @ '']'')),
           (''insertion_index'',
              (case cell_insertion_index cell of None \<Rightarrow> JStr ''N/A'' | Some i \<Rightarrow> JInt i)),
           (''current_content'', JStr (repr (str_or_empty (cell_content cell)))),
           (''content_elements_count'',
              JInt (case cell_content_elements cell of None \<Rightarrow> 0 | Some n \<Rightarrow> int n))]"

definition debug_info :: "(string \<Rightarrow> string) \<Rightarrow> int \<Rightarrow> table_info \<Rightarrow> json" where
  "debug_info repr table_index table_info =
     JObj [(''table_index'', JInt table_index),
           (''dimensions'', JStr (str_int (tbl_rows table_info) @ ''x'' @ str_int (tbl_columns table_info))),
           (''table_range'', JStr (''['' @ str_int (tbl_start_index table_info) @ ''-'' @
                                   str_int (tbl_end_index table_info) @ '']'')),
           (''cells'',
              JList (map (\<lambda>(row_idx, row).
                            JList (map (\<lambda>(col_idx, cell). cell_debug repr row_idx col_idx cell)
                                     (enumerate 0 row)))
                       (enumerate 0 (tbl_cells table_info))))]"

text \<open>
  Lines 947-977, on the tables found. A negative \<open>table_index\<close> passes the test of line
  948; the subscript of line 951 then counts from the end of the list, and raises
  \<open>IndexError\<close> when the list is shorter.
\<close>

definition debug_table_text ::
  "(json \<Rightarrow> string) \<Rightarrow> (string \<Rightarrow> string) \<Rightarrow> string \<Rightarrow> table_info list \<Rightarrow> int \<Rightarrow> exn + string" where
  "debug_table_text json_dumps repr document_id tables table_index =
     (if table_index \<ge> int (length tables) then
        Inr (''Error: Table index '' @ str_int table_index @ '' not found. Document has '' @
             str_nat (length tables) @ '' table(s).'')
      else
        (let j = (if table_index < 0 then int (length tables) + table_index else table_index) in
         if j < 0 then Inl IndexError
         else
           (let table_info = tables ! nat j
            in Inr (''Table structure debug for table '' @ str_int table_index @ '':'' @
                    [CHR 0x0A, CHR 0x0A] @ json_dumps (debug_info repr table_index table_info) @
                    [CHR 0x0A, CHR 0x0A] @ ''Link: '' @ doc_link document_id))))"

definition debug_table_structure ::
  "'w docs_service \<Rightarrow> (doc_data \<Rightarrow> table_info list) \<Rightarrow> (json \<Rightarrow> string) \<Rightarrow> (string \<Rightarrow> string) \<Rightarrow> string \<Rightarrow>
   int \<Rightarrow> 'w \<Rightarrow> 'w outcome" where
  "debug_table_structure service find_tables json_dumps repr document_id table_index w =
     (let (reply, w') = documents_get service document_id w
      in case reply of
           Inl e \<Rightarrow> (Inl e, [DocumentsGet document_id], w')
         | Inr doc \<Rightarrow>
             (debug_table_text json_dumps repr document_id (find_tables doc) table_index,
              [DocumentsGet document_id], w'))"

section \<open>get_doc_content\<close>

text \<open>
  \<open>s.strip()\<close> is tested for truth only: it is non-empty when \<open>s\<close> has a character that is
  not white space (\<open>str.isspace\<close> on code points below 256).
\<close>

definition isspace :: "char \<Rightarrow> bool" where
  "isspace c =
     (let n = (of_char c :: nat)
      in (9 \<le> n \<and> n \<le> 13) \<or> (28 \<le> n \<and> n \<le> 32) \<or> n = 133 \<or> n = 160)"

definition strip_nonempty :: "string \<Rightarrow> bool" where
  "strip_nonempty s = list_ex (\<lambda>c. \<not> isspace c) s"

definition TAB_HEADER_FORMAT :: "string \<Rightarrow> string" where
  "TAB_HEADER_FORMAT tab_name = [CHR 0x0A] @ ''--- TAB: '' @ tab_name @ '' ---'' @ [CHR 0x0A]"

definition paragraph_text :: "paragraph_element list \<Rightarrow> string" where
  "paragraph_text para_elements =
     concat (map (\<lambda>pe. case pe of ParagraphElement None \<Rightarrow> [] | ParagraphElement (Some c) \<Rightarrow> c)
               para_elements)"

text \<open>
  Lines 136-167. \<open>text_lines\<close> is the concatenation of what the header and each element
  append; the recursion into a cell is the only recursive call.
\<close>

function extract_text_from_elements :: "element list \<Rightarrow> string option \<Rightarrow> nat \<Rightarrow> string" where
  "extract_text_from_elements elements tab_name depth =
     (if depth > 5 then []
      else
        concat
          ((if truthy_str tab_name then [TAB_HEADER_FORMAT (str_or_empty tab_name)] else []) @
           concat
             (map (\<lambda>element.
                     case element of
                       Paragraph para_elements \<Rightarrow>
                         (let current_line_text = paragraph_text para_elements
                          in if strip_nonempty current_line_text then [current_line_text] else [])
                     | Table table_rows \<Rightarrow>
                         concat
                           (map (\<lambda>row_cells.
                                   concat
                                     (map (\<lambda>cell_content.
                                             (let cell_text =
                                                    extract_text_from_elements cell_content None (depth + 1)
                                              in if strip_nonempty cell_text then [cell_text] else []))
                                        row_cells))
                              table_rows)
                     | OtherElement \<Rightarrow> [])
                elements)))"
  by pat_completeness auto
termination
  by (relation "measure (\<lambda>(elements, tab_name, depth). 6 - depth)") auto

text \<open>Lines 169-186.\<close>

fun process_tab_hierarchy :: "tab \<Rightarrow> nat \<Rightarrow> string" where
  "process_tab_hierarchy (Tab document_tab child_tabs) level =
     (case document_tab of
        None \<Rightarrow> []
      | Some dt \<Rightarrow>
          (let title = str_or (tab_title dt) ''Untitled Tab'';
               title = (if level > 0 then concat (replicate level ''    '') @ title else title)
           in extract_text_from_elements (tab_body dt) (Some title) 0)) @
     concat (map (\<lambda>child_tab. process_tab_hierarchy child_tab (level + 1)) child_tabs)"

text \<open>Lines 188-203: the text of a native document.\<close>

definition native_doc_text :: "doc_data \<Rightarrow> string" where
  "native_doc_text doc =
     (let main_content = extract_text_from_elements (doc_body doc) None 0
      in concat
           ((if strip_nonempty main_content then [main_content] else []) @
            concat
              (map (\<lambda>tab. (let tab_content = process_tab_hierarchy tab 0
                           in if strip_nonempty tab_content then [tab_content] else []))
                 (doc_tabs doc))))"

text \<open>
  Lines 229-239: the text of a downloaded file. \<open>extract_office_xml_text\<close> of \<open>core.utils\<close>
  is not among the sources and is a parameter; \<open>decode\<close> is \<open>bytes.decode("utf-8")\<close>,
  \<open>None\<close> where Python raises \<open>UnicodeDecodeError\<close>.
\<close>

definition downloaded_text ::
  "(8 word list \<Rightarrow> string \<Rightarrow> string option) \<Rightarrow> (8 word list \<Rightarrow> string option) \<Rightarrow> 8 word list \<Rightarrow> string \<Rightarrow>
   string" where
  "downloaded_text extract_office_xml_text decode file_content_bytes mime_type =
     (let office_text = extract_office_xml_text file_content_bytes mime_type in
      if truthy_str office_text then str_or_empty office_text
      else
        (case decode file_content_bytes of
           Some body_text \<Rightarrow> body_text
         | None \<Rightarrow>
             ''[Binary or unsupported text encoding for mimeType '' @ quoted mime_type @ '' - '' @
             str_nat (length file_content_bytes) @ '' bytes]''))"

definition content_header :: "string \<Rightarrow> string \<Rightarrow> string \<Rightarrow> string \<Rightarrow> string" where
  "content_header file_name document_id mime_type web_view_link =
     ''File: '' @ [CHR 0x22] @ file_name @ [CHR 0x22] @ '' (ID: '' @ document_id @ '', Type: '' @
     mime_type @ '')'' @ [CHR 0x0A] @ ''Link: '' @ web_view_link @ [CHR 0x0A, CHR 0x0A] @
     ''--- CONTENT ---'' @ [CHR 0x0A]"

definition get_doc_content ::
  "'w drive_service \<Rightarrow> 'w docs_service \<Rightarrow> (8 word list \<Rightarrow> string \<Rightarrow> string option) \<Rightarrow>
   (8 word list \<Rightarrow> string option) \<Rightarrow> string \<Rightarrow> 'w \<Rightarrow> 'w outcome" where
  "get_doc_content drive_service docs_service extract_office_xml_text decode document_id w =
     (let (reply, w1) = files_get drive_service document_id w
      in case reply of
           Inl e \<Rightarrow> (Inl e, [FilesGet document_id], w1)
         | Inr file_metadata \<Rightarrow>
             (let mime_type = str_or (meta_mimeType file_metadata) [];
                  file_name = str_or (meta_name file_metadata) ''Unknown File'';
                  web_view_link = str_or (meta_webViewLink file_metadata) ''#'';
                  header = content_header file_name document_id mime_type web_view_link
              in if mime_type = ''application/vnd.google-apps.document'' then
                   (let (reply, w2) = documents_get docs_service document_id w1
                    in case reply of
                         Inl e \<Rightarrow> (Inl e, [FilesGet document_id, DocumentsGet document_id], w2)
                       | Inr doc \<Rightarrow>
                           (Inr (header @ native_doc_text doc),
                            [FilesGet document_id, DocumentsGet document_id], w2))
                 else
                   (let (reply, w2) = files_get_media drive_service document_id w1
                    in case reply of
                         Inl e \<Rightarrow> (Inl e, [FilesGet document_id, FilesGetMedia document_id], w2)
                       | Inr file_content_bytes \<Rightarrow>
                           (Inr (header @
                                 downloaded_text extract_office_xml_text decode file_content_bytes mime_type),
                            [FilesGet document_id, FilesGetMedia document_id], w2))))"

subsection \<open>Truncated and nested trees\<close>




declare extract_text_from_elements.simps [simp del]



section \<open>The validation layer, as the specification describes it\<close>

text \<open>
  Modelled from the spec: \<open>ValidationManager.validate_index_range\<close> of \<open>gdocs.managers\<close> is
  not among the sources. Section 4.2 of the specification: it "fails if start<0, end<start,
  or end<0 when provided"; section 8: "for all non-negative start < end it succeeds; for
  end <= start, it fails". The second sentence covers the second case of the first. The
  messages are the model's own.
\<close>

definition validate_index_range_spec :: "int \<Rightarrow> int \<Rightarrow> bool \<times> string" where
  "validate_index_range_spec start_index end_index =
     (if start_index < 0 then (False, ''start_index cannot be negative, got '' @ str_int start_index)
      else if end_index < 0 then (False, ''end_index cannot be negative, got '' @ str_int end_index)
      else if end_index \<le> start_index then
        (False, ''end_index ('' @ str_int end_index @ '') must be greater than start_index ('' @
                str_int start_index @ '')'')
      else (True, []))"

text \<open>
  Modelled from the spec: \<open>ValidationManager.validate_batch_operations\<close> of \<open>gdocs.managers\<close>
  is not among the sources. Section 4.2: it "fails unless every element names a known
  operation type and carries the parameters that type requires"; section 8: an empty
  operation list "fails validation with a descriptive message". The table of the known
  types with the parameters each requires is a parameter, \<open>required\<close>; the messages are the
  model's own.
\<close>

definition operation_problem :: "(string \<rightharpoonup> string list) \<Rightarrow> operation \<Rightarrow> string option" where
  "operation_problem required op =
     (case map_of op ''type'' of
        Some (PStr t) \<Rightarrow>
          (case required t of
             None \<Rightarrow> Some (''unknown operation type '' @ quoted t)
           | Some keys \<Rightarrow>
               (case filter (\<lambda>k. map_of op k = None) keys of
                  [] \<Rightarrow> None
                | k # ks \<Rightarrow> Some (''operation '' @ quoted t @ '' requires '' @ quoted k)))
      | _ \<Rightarrow> Some (''operation is missing its '' @ quoted ''type''))"

definition validate_batch_operations_spec ::
  "(string \<rightharpoonup> string list) \<Rightarrow> operation list \<Rightarrow> bool \<times> string" where
  "validate_batch_operations_spec required operations =
     (if operations = [] then (False, ''Operations list cannot be empty'')
      else
        (case List.map_filter (operation_problem required) operations of
           [] \<Rightarrow> (True, [])
         | problem # problems \<Rightarrow> (False, problem)))"

section \<open>Example collaborators\<close>

text \<open>
  A validation manager that checks index ranges and operation lists as the specification
  describes, rejects an empty document id and accepts everything else; remote services
  and managers that answer every call; the operation types the description of
  \<open>batch_update_doc\<close> names, with the parameters of its example.
\<close>

definition example_required :: "string \<rightharpoonup> string list" where
  "example_required =
     [''insert_text'' \<mapsto> [''index'', ''text''],
      ''delete_text'' \<mapsto> [''start_index'', ''end_index''],
      ''replace_text'' \<mapsto> [''start_index'', ''end_index'', ''text''],
      ''format_text'' \<mapsto> [''start_index'', ''end_index''],
      ''insert_table'' \<mapsto> [''index'', ''rows'', ''columns''],
      ''insert_page_break'' \<mapsto> [''index'']]"

definition example_validator :: ValidationManager where
  "example_validator =
     \<lparr>validate_document_id = (\<lambda>d. if d = [] then (False, ''Document ID cannot be empty'') else (True, [])),
      validate_text_formatting_params = (\<lambda>b i u fs ff. (True, [])),
      validate_index_range = validate_index_range_spec,
      validate_header_footer_params = (\<lambda>st ht. (True, [])),
      validate_text_content = (\<lambda>c. (True, [])),
      validate_batch_operations = validate_batch_operations_spec example_required,
      validate_table_data = (\<lambda>d. if d = [] then (False, ''Table data cannot be empty'') else (True, [])),
      validate_index = (\<lambda>i nm. if i < 0 then (False, nm @ '' cannot be negative'') else (True, []))\<rparr>"

definition example_docs :: "unit docs_service" where
  "example_docs =
     \<lparr>documents_batchUpdate = (\<lambda>d rs w. (Inr (), w)),
      documents_get = (\<lambda>d w. (Inr \<lparr>doc_body = [], doc_tabs = []\<rparr>, w))\<rparr>"

text \<open>
  Managers over a document whose end index is 10: a table is refused at index 10 or beyond
  with the message of the remote service, and created below it.
\<close>

definition example_managers :: "unit managers" where
  "example_managers =
     \<lparr>create_and_populate_table =
        (\<lambda>d table_data index bold w.
           if 10 \<le> index
           then (Inr (False,
                      ''Invalid requests[0].insertTable: Index '' @ str_int index @
                      '' must be less than the end index of the referenced segment, 10.'',
                      Map.empty), w)
           else (Inr (True, ''Successfully created table'',
                      [''rows'' \<mapsto> int (length table_data),
                       ''columns'' \<mapsto> int (length (hd table_data))]), w)),
      update_header_footer_content = (\<lambda>d st c ht w. (Inr (True, ''Updated '' @ st), w)),
      execute_batch_operations =
        (\<lambda>d ops w. (Inr (True, ''Successfully executed operations'',
                           [''replies_count'' \<mapsto> int (length ops)]), w))\<rparr>"

text \<open>
  \<open>bytes.decode("utf-8")\<close> on the byte strings that are not UTF-8 and on those whose text
  has code points below 256 only (one byte below 0x80, or a lead byte 0xC2 or 0xC3 and a
  continuation byte); a text with a larger code point is not a string of the model.
\<close>

fun example_decode :: "8 word list \<Rightarrow> string option" where
  "example_decode [] = Some []"
| "example_decode [b] = (if b < 0x80 then Some [char_of (unat b)] else None)"
| "example_decode (b # c # bs) =
     (if b < 0x80 then map_option (\<lambda>s. char_of (unat b) # s) (example_decode (c # bs))
      else if (b = 0xC2 \<or> b = 0xC3) \<and> 0x80 \<le> c \<and> c \<le> 0xBF then
        map_option (\<lambda>s. char_of ((unat b - 0xC0) * 64 + (unat c - 0x80)) # s) (example_decode bs)
      else None)"

definition example_drive :: "unit drive_service" where
  "example_drive =
     \<lparr>files_get = (\<lambda>f w. (Inr \<lparr>meta_name = Some ''logo.png'', meta_mimeType = Some ''image/png'',
                                 meta_webViewLink = None\<rparr>, w)),
      files_get_media = (\<lambda>f w. (Inr [0xFF, 0xFE], w))\<rparr>"



definition recording_managers :: "int list managers" where
  "recording_managers =
     \<lparr>create_and_populate_table =
        (\<lambda>d table_data index bold w.
           (if 10 \<le> index
            then Inr (False,
                      ''Invalid requests[0].insertTable: Index '' @ str_int index @
                      '' must be less than the end index of the referenced segment, 10.'',
                      Map.empty)
            else Inr (True, ''Successfully created table'',
                      [''rows'' \<mapsto> int (length table_data),
                       ''columns'' \<mapsto> int (length (hd table_data))]),
            w @ [index])),
      update_header_footer_content = (\<lambda>d st c ht w. (Inr (True, ''Updated '' @ st), w)),
      execute_batch_operations =
        (\<lambda>d ops w. (Inr (True, ''Successfully executed operations'',
                           [''replies_count'' \<mapsto> int (length ops)]), w))\<rparr>"

section \<open>Evaluating the decimal digits\<close>

lemma digit_chars:
  "char_of (48::nat) = CHR ''0''" "char_of (49::nat) = CHR ''1''" "char_of (50::nat) = CHR ''2''"
  "char_of (51::nat) = CHR ''3''" "char_of (52::nat) = CHR ''4''" "char_of (53::nat) = CHR ''5''"
  "char_of (54::nat) = CHR ''6''" "char_of (55::nat) = CHR ''7''" "char_of (56::nat) = CHR ''8''"
  "char_of (57::nat) = CHR ''9''"
  by code_simp+

section \<open>Offset zero is never addressed\<close>




lemma format_range_end_None:
  "snd (format_range start_index end_index text) = None \<longleftrightarrow> (text = None \<and> end_index = None)"
  by (auto simp: format_range_def Let_def is_replacement_def split: option.splits prod.splits if_splits)



lemma bump_index_nonzero: "bump_index i \<noteq> 0"
  by (simp add: bump_index_def)



lemma transmitted_append: "transmitted (xs @ ys) = transmitted xs @ transmitted ys"
  by (induction xs rule: transmitted.induct) simp_all







lemma modify_doc_text_rejected:
  assumes "modify_doc_text_validation validator document_id start_index end_index text bold italic
     underline font_size font_family = Some err"
  shows "modify_doc_text validator service document_id start_index end_index text bold italic underline
     font_size font_family w = (Inr err, [], w)"
  using assms by (simp add: modify_doc_text_def)









section \<open>The range of a formatting request\<close>







section \<open>The checks the specification describes\<close>

text \<open>
  Claim C7. \<open>validate_index_range\<close>, as the specification describes it, succeeds for all
  non-negative integers with start < end, fails whenever end <= start (also when they are
  equal), and fails whenever start < 0 or end < 0.
\<close>

theorem validate_index_range_spec_decides:
  "(0 \<le> start_index \<and> start_index < end_index \<longrightarrow> fst (validate_index_range_spec start_index end_index)) \<and>
   (end_index \<le> start_index \<longrightarrow> \<not> fst (validate_index_range_spec start_index end_index)) \<and>
   (start_index < 0 \<or> end_index < 0 \<longrightarrow> \<not> fst (validate_index_range_spec start_index end_index))"
  by (simp add: validate_index_range_spec_def)

theorem validate_index_range_spec_decides_witness:
  "fst (validate_index_range_spec 1 5) \<and> \<not> fst (validate_index_range_spec 5 5) \<and>
   \<not> fst (validate_index_range_spec 5 2) \<and> \<not> fst (validate_index_range_spec (- 1) 4)"
  using validate_index_range_spec_decides [of 1 5] validate_index_range_spec_decides [of 5 5]
    validate_index_range_spec_decides [of 5 2] validate_index_range_spec_decides [of "- 1" 4]
  by simp

text \<open>
  Claim C6. \<open>batch_update_doc\<close> given an empty operations list, with the check of the
  operation list the specification describes, returns a text that starts with \<open>Error:\<close> and
  carries the message of the failed check, and issues no call: the batch manager is not
  invoked. The failed check is that of the operation list when the document id is valid,
  and that of the document id otherwise.
\<close>

theorem batch_update_doc_empty_operations:
  "batch_update_doc (validator\<lparr>validate_batch_operations := validate_batch_operations_spec required\<rparr>)
     batch_manager document_id [] w =
   (Inr (''Error: '' @
         (if fst (validate_document_id validator document_id) then ''Operations list cannot be empty''
          else snd (validate_document_id validator document_id))),
    [], w)"
proof -
  obtain is_valid error_msg where v: "validate_document_id validator document_id = (is_valid, error_msg)"
    by (cases "validate_document_id validator document_id") auto
  show ?thesis
  proof (cases is_valid)
    case True
    with v show ?thesis
      by (simp add: batch_update_doc_def validate_batch_operations_spec_def)
  next
    case False
    with v show ?thesis
      by (simp add: batch_update_doc_def)
  qed
qed

theorem batch_update_doc_empty_operations_witness:
  "batch_update_doc example_validator example_managers ''doc'' [] () =
     (Inr ''Error: Operations list cannot be empty'', [], ())"
  using batch_update_doc_empty_operations [where validator = example_validator
      and required = example_required and batch_manager = example_managers and document_id = "''doc''"
      and w = "()"]
  by (simp add: example_validator_def)

section \<open>Validation failures\<close>

lemma modify_doc_text_validation_prefix:
  "modify_doc_text_validation validator document_id start_index end_index text bold italic underline
     font_size font_family = Some err \<Longrightarrow> prefix ''Error: '' err"
  by (auto simp: modify_doc_text_validation_def Let_def split: prod.splits if_splits option.splits)

lemma modify_doc_text_validation_None:
  "modify_doc_text_validation validator document_id start_index end_index text bold italic underline
     font_size font_family = None \<longleftrightarrow>
   fst (validate_document_id validator document_id) \<and>
   (is_not_None text \<or> any_formatting bold italic underline font_size font_family) \<and>
   (any_formatting bold italic underline font_size font_family \<longrightarrow>
      fst (validate_text_formatting_params validator bold italic underline font_size font_family) \<and>
      (\<exists>e. end_index = Some e \<and> fst (validate_index_range validator start_index e)))"
  by (cases "text"; cases end_index)
     (auto simp: modify_doc_text_validation_def Let_def split: prod.splits)

lemma update_doc_headers_footers_rejected:
  assumes "\<not> fst (validate_document_id validator document_id) \<or>
     \<not> fst (validate_header_footer_params validator section_type header_footer_type) \<or>
     \<not> fst (validate_text_content validator content)"
  shows "\<exists>msg. update_doc_headers_footers validator manager document_id section_type content
     header_footer_type w = (Inr (''Error: '' @ msg), [], w)"
  using assms by (auto simp: update_doc_headers_footers_def Let_def split: prod.splits)

lemma batch_update_doc_rejected:
  assumes "\<not> fst (validate_document_id validator document_id) \<or>
     \<not> fst (validate_batch_operations validator operations)"
  shows "\<exists>msg. batch_update_doc validator manager document_id operations w = (Inr (''Error: '' @ msg), [], w)"
  using assms by (auto simp: batch_update_doc_def Let_def split: prod.splits)

lemma create_table_with_data_rejected:
  assumes "\<not> fst (validate_document_id validator document_id) \<or>
     \<not> fst (validate_table_data validator table_data) \<or>
     \<not> fst (validate_index validator index ''Index'')"
  shows "\<exists>msg. create_table_with_data validator manager document_id table_data index bold_headers w =
     (Inr (''ERROR: '' @ msg), [], w)"
  using assms by (auto simp: create_table_with_data_def Let_def split: prod.splits)

text \<open>
  Claim C4. On every input on which a validation check of \<open>modify_doc_text\<close>,
  \<open>update_doc_headers_footers\<close>, \<open>batch_update_doc\<close> or \<open>create_table_with_data\<close> fails, the
  tool returns a text (it does not raise) that starts with \<open>Error:\<close>, or \<open>ERROR:\<close> for
  \<open>create_table_with_data\<close>, followed by the message of the check, and it issues no call
  and leaves the remote state as it was. The checks of \<open>modify_doc_text\<close> are those of lines
  334-354: the document id, that there is something to do, and, when formatting is
  requested, the formatting parameters, the presence of \<open>end_index\<close> and the index range.
\<close>

theorem validation_failure_returns_error_without_calls:
  "((\<not> fst (validate_document_id validator document_id) \<or>
     (new_text = None \<and> \<not> any_formatting bold italic underline font_size font_family) \<or>
     (any_formatting bold italic underline font_size font_family \<and>
        (\<not> fst (validate_text_formatting_params validator bold italic underline font_size font_family) \<or>
         end_index = None \<or>
         (\<exists>e. end_index = Some e \<and> \<not> fst (validate_index_range validator start_index e))))) \<longrightarrow>
    (\<exists>msg. modify_doc_text validator service document_id start_index end_index new_text bold italic
        underline font_size font_family w = (Inr (''Error: '' @ msg), [], w))) \<and>
   ((\<not> fst (validate_document_id validator document_id) \<or>
     \<not> fst (validate_header_footer_params validator section_type header_footer_type) \<or>
     \<not> fst (validate_text_content validator content)) \<longrightarrow>
    (\<exists>msg. update_doc_headers_footers validator manager document_id section_type content
        header_footer_type w = (Inr (''Error: '' @ msg), [], w))) \<and>
   ((\<not> fst (validate_document_id validator document_id) \<or>
     \<not> fst (validate_batch_operations validator operations)) \<longrightarrow>
    (\<exists>msg. batch_update_doc validator manager document_id operations w =
        (Inr (''Error: '' @ msg), [], w))) \<and>
   ((\<not> fst (validate_document_id validator document_id) \<or>
     \<not> fst (validate_table_data validator table_data) \<or>
     \<not> fst (validate_index validator index ''Index'')) \<longrightarrow>
    (\<exists>msg. create_table_with_data validator manager document_id table_data index bold_headers w =
        (Inr (''ERROR: '' @ msg), [], w)))"
proof (intro conjI impI)
  assume fails: "\<not> fst (validate_document_id validator document_id) \<or>
     (new_text = None \<and> \<not> any_formatting bold italic underline font_size font_family) \<or>
     (any_formatting bold italic underline font_size font_family \<and>
        (\<not> fst (validate_text_formatting_params validator bold italic underline font_size font_family) \<or>
         end_index = None \<or>
         (\<exists>e. end_index = Some e \<and> \<not> fst (validate_index_range validator start_index e))))"
  have "modify_doc_text_validation validator document_id start_index end_index new_text bold italic
     underline font_size font_family \<noteq> None"
    using fails unfolding modify_doc_text_validation_None by (cases new_text) auto
  then obtain err where err: "modify_doc_text_validation validator document_id start_index end_index
     new_text bold italic underline font_size font_family = Some err"
    by blast
  from modify_doc_text_validation_prefix[OF err] obtain msg where "err = ''Error: '' @ msg"
    unfolding prefix_def by blast
  with modify_doc_text_rejected[OF err, of service w]
  show "\<exists>msg. modify_doc_text validator service document_id start_index end_index new_text bold italic
        underline font_size font_family w = (Inr (''Error: '' @ msg), [], w)"
    by simp
next
  assume "\<not> fst (validate_document_id validator document_id) \<or>
     \<not> fst (validate_header_footer_params validator section_type header_footer_type) \<or>
     \<not> fst (validate_text_content validator content)"
  then show "\<exists>msg. update_doc_headers_footers validator manager document_id section_type content
        header_footer_type w = (Inr (''Error: '' @ msg), [], w)"
    by (rule update_doc_headers_footers_rejected)
next
  assume "\<not> fst (validate_document_id validator document_id) \<or>
     \<not> fst (validate_batch_operations validator operations)"
  then show "\<exists>msg. batch_update_doc validator manager document_id operations w =
        (Inr (''Error: '' @ msg), [], w)"
    by (rule batch_update_doc_rejected)
next
  assume "\<not> fst (validate_document_id validator document_id) \<or>
     \<not> fst (validate_table_data validator table_data) \<or>
     \<not> fst (validate_index validator index ''Index'')"
  then show "\<exists>msg. create_table_with_data validator manager document_id table_data index bold_headers w =
        (Inr (''ERROR: '' @ msg), [], w)"
    by (rule create_table_with_data_rejected)
qed

theorem validation_failure_returns_error_without_calls_witness:
  "modify_doc_text example_validator example_docs ''doc'' 4 (Some 2) None (Some True) None None None None () =
     (Inr ''Error: end_index (2) must be greater than start_index (4)'', [], ()) \<and>
   update_doc_headers_footers example_validator example_managers [] ''header'' ''Title'' ''DEFAULT'' () =
     (Inr ''Error: Document ID cannot be empty'', [], ()) \<and>
   batch_update_doc example_validator example_managers ''doc'' [[(''type'', PStr ''erase'')]] () =
     (Inr (''Error: unknown operation type '' @ quoted ''erase''), [], ()) \<and>
   create_table_with_data example_validator example_managers ''doc'' [[''A'']] (- 1) True () =
     (Inr ''ERROR: Index cannot be negative'', [], ())"
proof -
  have range: "\<not> fst (validate_index_range example_validator 4 2)"
    by (simp add: example_validator_def validate_index_range_spec_def)
  have fmt: "any_formatting (Some True) None None None None"
    by (simp add: any_formatting_def)
  have doc: "\<not> fst (validate_document_id example_validator [])"
    by (simp add: example_validator_def)
  have ops: "\<not> fst (validate_batch_operations example_validator [[(''type'', PStr ''erase'')]])"
    by (simp add: example_validator_def validate_batch_operations_spec_def List.map_filter_def
          operation_problem_def example_required_def)
  have idx: "\<not> fst (validate_index example_validator (- 1) ''Index'')"
    by (simp add: example_validator_def)
  note inst = validation_failure_returns_error_without_calls [where validator = example_validator
      and w = "()" and manager = example_managers and service = example_docs]
  have "\<exists>msg. modify_doc_text example_validator example_docs ''doc'' 4 (Some 2) None (Some True) None None
      None None () = (Inr (''Error: '' @ msg), [], ())"
    using inst [where start_index = 4 and end_index = "Some 2" and bold = "Some True" and italic = None
        and underline = None and font_size = None and font_family = None and document_id = "''doc''"
        and new_text = None] range fmt
    by blast
  then have m: "modify_doc_text example_validator example_docs ''doc'' 4 (Some 2) None (Some True) None None
      None None () = (Inr ''Error: end_index (2) must be greater than start_index (4)'', [], ())"
    by (simp add: modify_doc_text_def modify_doc_text_validation_def example_validator_def
          validate_index_range_spec_def any_formatting_def str_int_def digit_chars)
  have h: "update_doc_headers_footers example_validator example_managers [] ''header'' ''Title''
      ''DEFAULT'' () = (Inr ''Error: Document ID cannot be empty'', [], ())"
    using inst [where document_id = "[]" and section_type = "''header''" and content = "''Title''"
        and header_footer_type = "''DEFAULT''"] doc
    by (simp add: update_doc_headers_footers_def example_validator_def)
  have b: "batch_update_doc example_validator example_managers ''doc'' [[(''type'', PStr ''erase'')]] () =
     (Inr (''Error: unknown operation type '' @ quoted ''erase''), [], ())"
    using inst [where document_id = "''doc''" and operations = "[[(''type'', PStr ''erase'')]]"] ops
    by (simp add: batch_update_doc_def example_validator_def validate_batch_operations_spec_def
          List.map_filter_def operation_problem_def example_required_def)
  have t: "create_table_with_data example_validator example_managers ''doc'' [[''A'']] (- 1) True () =
     (Inr ''ERROR: Index cannot be negative'', [], ())"
    using inst [where document_id = "''doc''" and table_data = "[[''A'']]" and index = "- 1"
        and bold_headers = True] idx
    by (simp add: create_table_with_data_def example_validator_def)
  from m h b t show ?thesis by simp
qed

section \<open>The boundary retry of create_table_with_data\<close>

text \<open>
  Claim C2. When the input passes validation, \<open>create_table_with_data\<close> calls
  \<open>create_and_populate_table\<close> with the index it was given. When that call returns a
  failure whose message contains "must be less than the end index", it calls it once more,
  with the index decremented by 1 and on the state the first call left, and its result and
  the final state are those of the second call, whatever that call returns; there is no
  third call. After any other outcome of the first call there is no second call: result
  and state are those of the first. When validation fails there is no call at all.
\<close>

theorem create_table_with_data_retries_once:
  "(fst (validate_document_id validator document_id) \<and> fst (validate_table_data validator table_data) \<and>
    fst (validate_index validator index ''Index'') \<longrightarrow>
      create_table_with_data validator table_manager document_id table_data index bold_headers w =
        (case create_and_populate_table table_manager document_id table_data index bold_headers w of
           (Inl e, w1) \<Rightarrow>
             (Inl e, [CreateAndPopulateTable document_id table_data index bold_headers], w1)
         | (Inr (success, message, metadata), w1) \<Rightarrow>
             if \<not> success \<and> sublist ''must be less than the end index'' message then
               (case create_and_populate_table table_manager document_id table_data (index - 1)
                       bold_headers w1 of
                  (Inl e, w2) \<Rightarrow>
                    (Inl e,
                     [CreateAndPopulateTable document_id table_data index bold_headers,
                      CreateAndPopulateTable document_id table_data (index - 1) bold_headers], w2)
                | (Inr (retry_success, retry_message, retry_metadata), w2) \<Rightarrow>
                    (Inr (table_result document_id index retry_success retry_message retry_metadata),
                     [CreateAndPopulateTable document_id table_data index bold_headers,
                      CreateAndPopulateTable document_id table_data (index - 1) bold_headers], w2))
             else
               (Inr (table_result document_id index success message metadata),
                [CreateAndPopulateTable document_id table_data index bold_headers], w1))) \<and>
   (\<not> (fst (validate_document_id validator document_id) \<and> fst (validate_table_data validator table_data) \<and>
       fst (validate_index validator index ''Index'')) \<longrightarrow>
      (\<exists>msg. create_table_with_data validator table_manager document_id table_data index bold_headers w =
         (Inr (''ERROR: '' @ msg), [], w)))"
proof (intro conjI impI)
  assume valid: "fst (validate_document_id validator document_id) \<and>
    fst (validate_table_data validator table_data) \<and> fst (validate_index validator index ''Index'')"
  obtain reply w1 where first:
    "create_and_populate_table table_manager document_id table_data index bold_headers w = (reply, w1)"
    by (cases "create_and_populate_table table_manager document_id table_data index bold_headers w") auto
  obtain retry_reply w2 where retry:
    "create_and_populate_table table_manager document_id table_data (index - 1) bold_headers w1 =
       (retry_reply, w2)"
    by (cases "create_and_populate_table table_manager document_id table_data (index - 1) bold_headers w1")
       auto
  show "create_table_with_data validator table_manager document_id table_data index bold_headers w =
        (case create_and_populate_table table_manager document_id table_data index bold_headers w of
           (Inl e, w1) \<Rightarrow>
             (Inl e, [CreateAndPopulateTable document_id table_data index bold_headers], w1)
         | (Inr (success, message, metadata), w1) \<Rightarrow>
             if \<not> success \<and> sublist ''must be less than the end index'' message then
               (case create_and_populate_table table_manager document_id table_data (index - 1)
                       bold_headers w1 of
                  (Inl e, w2) \<Rightarrow>
                    (Inl e,
                     [CreateAndPopulateTable document_id table_data index bold_headers,
                      CreateAndPopulateTable document_id table_data (index - 1) bold_headers], w2)
                | (Inr (retry_success, retry_message, retry_metadata), w2) \<Rightarrow>
                    (Inr (table_result document_id index retry_success retry_message retry_metadata),
                     [CreateAndPopulateTable document_id table_data index bold_headers,
                      CreateAndPopulateTable document_id table_data (index - 1) bold_headers], w2))
             else
               (Inr (table_result document_id index success message metadata),
                [CreateAndPopulateTable document_id table_data index bold_headers], w1))"
  proof (cases reply)
    case (Inl e)
    with valid first show ?thesis
      by (simp add: create_table_with_data_def case_prod_beta Let_def)
  next
    case (Inr answer)
    obtain success message metadata where answer: "answer = (success, message, metadata)"
      by (cases answer) auto
    show ?thesis
    proof (cases "\<not> success \<and> sublist ''must be less than the end index'' message")
      case False
      with valid first Inr answer show ?thesis
        by (auto simp: create_table_with_data_def case_prod_beta Let_def)
    next
      case True
      show ?thesis
      proof (cases retry_reply)
        case (Inl e)
        with valid first retry \<open>reply = Inr answer\<close> answer True show ?thesis
          by (simp add: create_table_with_data_def case_prod_beta Let_def)
      next
        case (Inr retry_answer)
        obtain retry_success retry_message retry_metadata where
          "retry_answer = (retry_success, retry_message, retry_metadata)"
          by (cases retry_answer) auto
        with valid first retry \<open>reply = Inr answer\<close> answer True Inr show ?thesis
          by (simp add: create_table_with_data_def case_prod_beta Let_def)
      qed
    qed
  qed
next
  assume "\<not> (fst (validate_document_id validator document_id) \<and>
    fst (validate_table_data validator table_data) \<and> fst (validate_index validator index ''Index''))"
  then have "\<not> fst (validate_document_id validator document_id) \<or>
     \<not> fst (validate_table_data validator table_data) \<or>
     \<not> fst (validate_index validator index ''Index'')"
    by simp
  then show "\<exists>msg. create_table_with_data validator table_manager document_id table_data index
      bold_headers w = (Inr (''ERROR: '' @ msg), [], w)"
    by (rule create_table_with_data_rejected)
qed

theorem create_table_with_data_retries_once_witness:
  "create_table_with_data example_validator recording_managers ''doc''
     [[''a'', ''b'', ''c''], [''d'', ''e'', ''f'']] 10 True [] =
   (Inr (''SUCCESS: Successfully created table. Table: 2x3, Index: 10. Link: '' @ doc_link ''doc''),
    [CreateAndPopulateTable ''doc'' [[''a'', ''b'', ''c''], [''d'', ''e'', ''f'']] 10 True,
     CreateAndPopulateTable ''doc'' [[''a'', ''b'', ''c''], [''d'', ''e'', ''f'']] 9 True],
    [10, 9])"
proof -
  let ?data = "[[''a'', ''b'', ''c''], [''d'', ''e'', ''f'']]"
  let ?msg = "''Invalid requests[0].insertTable: Index 10 must be less than the end index of the referenced segment, 10.''"
  have valid: "fst (validate_document_id example_validator ''doc'') \<and>
      fst (validate_table_data example_validator ?data) \<and>
      fst (validate_index example_validator 10 ''Index'')"
    by (simp add: example_validator_def)
  have first: "create_and_populate_table recording_managers ''doc'' ?data 10 True [] =
      (Inr (False, ?msg, Map.empty), [10])"
    by (simp add: recording_managers_def str_int_def digit_chars)
  have needle: "sublist ''must be less than the end index'' ?msg"
    by code_simp
  have second: "create_and_populate_table recording_managers ''doc'' ?data 9 True [10] =
      (Inr (True, ''Successfully created table'', [''rows'' \<mapsto> 2, ''columns'' \<mapsto> 3]), [10, 9])"
    by (simp add: recording_managers_def)
  have rendered: "table_result ''doc'' 10 True ''Successfully created table'' [''rows'' \<mapsto> 2, ''columns'' \<mapsto> 3] =
      ''SUCCESS: Successfully created table. Table: 2x3, Index: 10. Link: '' @ doc_link ''doc''"
    by (simp add: table_result_def metadata_get_def str_int_def digit_chars)
  from create_table_with_data_retries_once [where validator = example_validator
      and table_manager = recording_managers and document_id = "''doc''" and table_data = ?data
      and index = 10 and bold_headers = True and w = "[]"] valid
  have "create_table_with_data example_validator recording_managers ''doc'' ?data 10 True [] =
      (case create_and_populate_table recording_managers ''doc'' ?data 10 True [] of
           (Inl e, w1) \<Rightarrow>
             (Inl e, [CreateAndPopulateTable ''doc'' ?data 10 True], w1)
         | (Inr (success, message, metadata), w1) \<Rightarrow>
             if \<not> success \<and> sublist ''must be less than the end index'' message then
               (case create_and_populate_table recording_managers ''doc'' ?data (10 - 1) True w1 of
                  (Inl e, w2) \<Rightarrow>
                    (Inl e,
                     [CreateAndPopulateTable ''doc'' ?data 10 True,
                      CreateAndPopulateTable ''doc'' ?data (10 - 1) True], w2)
                | (Inr (retry_success, retry_message, retry_metadata), w2) \<Rightarrow>
                    (Inr (table_result ''doc'' 10 retry_success retry_message retry_metadata),
                     [CreateAndPopulateTable ''doc'' ?data 10 True,
                      CreateAndPopulateTable ''doc'' ?data (10 - 1) True], w2))
             else
               (Inr (table_result ''doc'' 10 success message metadata),
                [CreateAndPopulateTable ''doc'' ?data 10 True], w1))"
    by blast
  then show ?thesis
    unfolding first by (simp add: needle second rendered)
qed

section \<open>A table index beyond the tables of the document\<close>

text \<open>
  Claim C9. For every \<open>table_index\<close> greater than or equal to the number of tables found
  in the document, \<open>debug_table_structure\<close> returns the text "Error: Table index
  {table_index} not found. Document has {n} table(s)." as its result, without raising, and
  does nothing more: the document was fetched once, and neither a table nor \<open>json.dumps\<close>
  is used.
\<close>

theorem debug_table_structure_index_not_found:
  assumes fetched: "documents_get service document_id w = (Inr doc, w')"
    and beyond: "int (length (find_tables doc)) \<le> table_index"
  shows "debug_table_structure service find_tables json_dumps repr document_id table_index w =
    (Inr (''Error: Table index '' @ str_int table_index @ '' not found. Document has '' @
          str_nat (length (find_tables doc)) @ '' table(s).''),
     [DocumentsGet document_id], w')"
proof -
  have "debug_table_text json_dumps repr document_id (find_tables doc) table_index =
    Inr (''Error: Table index '' @ str_int table_index @ '' not found. Document has '' @
         str_nat (length (find_tables doc)) @ '' table(s).'')"
    using beyond by (simp add: debug_table_text_def)
  with fetched show ?thesis
    by (simp add: debug_table_structure_def)
qed

theorem debug_table_structure_index_not_found_witness:
  "debug_table_structure example_docs (\<lambda>doc. []) (\<lambda>j. []) (\<lambda>s. s) ''doc'' 0 () =
     (Inr ''Error: Table index 0 not found. Document has 0 table(s).'', [DocumentsGet ''doc''], ())"
proof -
  have fetched: "documents_get example_docs ''doc'' () = (Inr \<lparr>doc_body = [], doc_tabs = []\<rparr>, ())"
    by (simp add: example_docs_def)
  have beyond: "int (length ((\<lambda>doc. []) \<lparr>doc_body = [], doc_tabs = []\<rparr> :: table_info list)) \<le> 0"
    by simp
  from debug_table_structure_index_not_found [OF fetched beyond, of "\<lambda>j. []" "\<lambda>s. s"]
  show ?thesis by (simp add: str_int_def digit_chars)
qed

section \<open>A downloaded file that is not text\<close>

lemma downloaded_text_placeholder:
  assumes "\<not> truthy_str (extract_office_xml_text file_content_bytes mime_type)"
    and "decode file_content_bytes = None"
  shows "downloaded_text extract_office_xml_text decode file_content_bytes mime_type =
     ''[Binary or unsupported text encoding for mimeType '' @ quoted mime_type @ '' - '' @
     str_nat (length file_content_bytes) @ '' bytes]''"
  using assms by (simp add: downloaded_text_def)

lemma get_doc_content_downloaded:
  assumes "files_get drive_service document_id w = (Inr file_metadata, w1)"
    and "str_or (meta_mimeType file_metadata) [] \<noteq> ''application/vnd.google-apps.document''"
    and "files_get_media drive_service document_id w1 = (Inr file_content_bytes, w2)"
  shows "get_doc_content drive_service docs_service extract_office_xml_text decode document_id w =
     (Inr (content_header (str_or (meta_name file_metadata) ''Unknown File'') document_id
             (str_or (meta_mimeType file_metadata) []) (str_or (meta_webViewLink file_metadata) ''#'') @
           downloaded_text extract_office_xml_text decode file_content_bytes
             (str_or (meta_mimeType file_metadata) [])),
      [FilesGet document_id, FilesGetMedia document_id], w2)"
  using assms by (simp add: get_doc_content_def Let_def)

text \<open>
  Claim C10. When \<open>get_doc_content\<close> has downloaded a file that is not a native document,
  it returns a text for every content of the file: the header followed by the extracted
  Office text, by the decoded bytes, or, when no Office text is extracted and the bytes are
  not valid UTF-8, by the placeholder that names the mime type and the number of bytes.
  \<open>UnicodeDecodeError\<close> does not leave the tool.
\<close>

theorem get_doc_content_undecodable_download:
  assumes metadata: "files_get drive_service document_id w = (Inr file_metadata, w1)"
    and other: "str_or (meta_mimeType file_metadata) [] \<noteq> ''application/vnd.google-apps.document''"
    and downloaded: "files_get_media drive_service document_id w1 = (Inr file_content_bytes, w2)"
  shows "(\<exists>body_text.
            result_of (get_doc_content drive_service docs_service extract_office_xml_text decode
              document_id w) =
            Inr (content_header (str_or (meta_name file_metadata) ''Unknown File'') document_id
                   (str_or (meta_mimeType file_metadata) [])
                   (str_or (meta_webViewLink file_metadata) ''#'') @ body_text)) \<and>
         (\<not> truthy_str (extract_office_xml_text file_content_bytes (str_or (meta_mimeType file_metadata) [])) \<and>
          decode file_content_bytes = None \<longrightarrow>
            result_of (get_doc_content drive_service docs_service extract_office_xml_text decode
              document_id w) =
            Inr (content_header (str_or (meta_name file_metadata) ''Unknown File'') document_id
                   (str_or (meta_mimeType file_metadata) [])
                   (str_or (meta_webViewLink file_metadata) ''#'') @
                 ''[Binary or unsupported text encoding for mimeType '' @
                 quoted (str_or (meta_mimeType file_metadata) []) @ '' - '' @
                 str_nat (length file_content_bytes) @ '' bytes]''))"
proof (intro conjI impI)
  note run = get_doc_content_downloaded [OF metadata other downloaded,
      of docs_service extract_office_xml_text decode]
  show "\<exists>body_text.
            result_of (get_doc_content drive_service docs_service extract_office_xml_text decode
              document_id w) =
            Inr (content_header (str_or (meta_name file_metadata) ''Unknown File'') document_id
                   (str_or (meta_mimeType file_metadata) [])
                   (str_or (meta_webViewLink file_metadata) ''#'') @ body_text)"
    unfolding run result_of_def by simp
  assume "\<not> truthy_str (extract_office_xml_text file_content_bytes (str_or (meta_mimeType file_metadata) [])) \<and>
          decode file_content_bytes = None"
  then have "downloaded_text extract_office_xml_text decode file_content_bytes
      (str_or (meta_mimeType file_metadata) []) =
     ''[Binary or unsupported text encoding for mimeType '' @
     quoted (str_or (meta_mimeType file_metadata) []) @ '' - '' @
     str_nat (length file_content_bytes) @ '' bytes]''"
    by (intro downloaded_text_placeholder) simp_all
  then show "result_of (get_doc_content drive_service docs_service extract_office_xml_text decode
              document_id w) =
            Inr (content_header (str_or (meta_name file_metadata) ''Unknown File'') document_id
                   (str_or (meta_mimeType file_metadata) [])
                   (str_or (meta_webViewLink file_metadata) ''#'') @
                 ''[Binary or unsupported text encoding for mimeType '' @
                 quoted (str_or (meta_mimeType file_metadata) []) @ '' - '' @
                 str_nat (length file_content_bytes) @ '' bytes]'')"
    unfolding run result_of_def by simp
qed

theorem get_doc_content_undecodable_download_witness:
  "result_of (get_doc_content example_drive example_docs (\<lambda>bytes mime_type. None) example_decode
     ''file1'' ()) =
   Inr (content_header ''logo.png'' ''file1'' ''image/png'' ''#'' @
        ''[Binary or unsupported text encoding for mimeType '' @ quoted ''image/png'' @ '' - 2 bytes]'')"
proof -
  let ?md = "\<lparr>meta_name = Some ''logo.png'', meta_mimeType = Some ''image/png'',
               meta_webViewLink = None\<rparr>"
  have metadata: "files_get example_drive ''file1'' () = (Inr ?md, ())"
    by (simp add: example_drive_def)
  have other: "str_or (meta_mimeType ?md) [] \<noteq> ''application/vnd.google-apps.document''"
    by simp
  have downloaded: "files_get_media example_drive ''file1'' () = (Inr [0xFF, 0xFE], ())"
    by (simp add: example_drive_def)
  have undecodable: "example_decode [0xFF, 0xFE] = None"
    by simp
  from get_doc_content_undecodable_download [OF metadata other downloaded,
      of example_docs "\<lambda>bytes mime_type. None" example_decode] undecodable
  show ?thesis by (simp add: digit_chars)
qed

section \<open>The depth bound of the text extraction\<close>








end
